theory Spec2Isabelle
  imports Complex_Main
begin

section \<open>The simulated thermal sensor of mlx\_server.py\<close>

text \<open>
  Temperatures are Python and numpy floating-point numbers in the source; they are
  modelled as real numbers, so the rounding of float32 and float64 is not part of the model.
  Modes and feet are the strings the source compares.
\<close>

subsection \<open>Arrays\<close>

text \<open>
  A two-dimensional numpy array: its shape and the value of every cell. Only the cells
  inside the shape are part of the array.
\<close>

record ndarray =
  nrows :: nat
  ncols :: nat
  cell :: "nat \<Rightarrow> nat \<Rightarrow> real"

definition zeros :: "nat \<Rightarrow> nat \<Rightarrow> ndarray" where
  "zeros r c = \<lparr>nrows = r, ncols = c, cell = (\<lambda>i j. 0)\<rparr>"

definition full :: "nat \<Rightarrow> nat \<Rightarrow> real \<Rightarrow> ndarray" where
  "full r c v = \<lparr>nrows = r, ncols = c, cell = (\<lambda>i j. v)\<rparr>"

definition fill :: "ndarray \<Rightarrow> real \<Rightarrow> ndarray" where
  "fill a v = a\<lparr>cell := (\<lambda>i j. v)\<rparr>"

definition zeros_like :: "ndarray \<Rightarrow> ndarray" where
  "zeros_like a = zeros (nrows a) (ncols a)"

text \<open>An arithmetic expression with a scalar, applied to every cell.\<close>

definition map_cells :: "(real \<Rightarrow> real) \<Rightarrow> ndarray \<Rightarrow> ndarray" where
  "map_cells f a = a\<lparr>cell := (\<lambda>i j. f (cell a i j))\<rparr>"

text \<open>
  The sum of two arrays, cell by cell. The source only adds arrays made with the shape
  of the first operand (\<open>self.base.shape\<close>), so the result has that shape.
\<close>

definition add :: "ndarray \<Rightarrow> ndarray \<Rightarrow> ndarray" where
  "add a b = \<lparr>nrows = nrows a, ncols = ncols a, cell = (\<lambda>i j. cell a i j + cell b i j)\<rparr>"

text \<open>\<open>a.ravel().tolist()\<close>: the cells in row-major order.\<close>

definition ravel :: "ndarray \<Rightarrow> real list" where
  "ravel a = concat (map (\<lambda>i. map (cell a i) [0..<ncols a]) [0..<nrows a])"

definition arr_min :: "ndarray \<Rightarrow> real" where
  "arr_min a = Min (set (ravel a))"

definition arr_max :: "ndarray \<Rightarrow> real" where
  "arr_max a = Max (set (ravel a))"

subsection \<open>The sensor object\<close>

text \<open>
  The image files are outside the program: \<open>files path\<close> is \<open>None\<close> when
  \<open>Image.open\<close> raises \<open>FileNotFoundError\<close>, and otherwise gives the grey level of
  every pixel of the image after \<open>convert("L")\<close> and the bilinear resize to the sensor's
  \<open>cols \<times> rows\<close>. Other failures of the imaging library (a file that is not an image, an
  empty size) are not modelled.

  The field \<open>loads\<close> is not an attribute of the Python object: it records the paths
  passed to \<open>_load_image\<close>, newest first, so that reloading can be observed.
\<close>

type_synonym files = "string \<Rightarrow> (nat \<Rightarrow> nat \<Rightarrow> real) option"

record sensor =
  rows :: nat
  cols :: nat
  temp_min :: real
  temp_max :: real
  noise_std :: real
  t :: real
  image_path :: string
  simulation_mode :: string
  foot :: string
  base :: ndarray
  loads :: "string list"

definition load_image :: "files \<Rightarrow> string \<Rightarrow> sensor \<Rightarrow> sensor" where
  "load_image fs path s =
     (case fs path of
        Some px \<Rightarrow>
          (let arr = \<lparr>nrows = rows s, ncols = cols s, cell = px\<rparr>;
               amin = arr_min arr;
               amax = arr_max arr;
               norm = (if amax = amin then zeros_like arr
                       else map_cells (\<lambda>v. (v - amin) / (amax - amin)) arr)
           in s\<lparr>base := map_cells (\<lambda>n. temp_min s + (temp_max s - temp_min s) * n) norm,
                loads := path # loads s\<rparr>)
      | None \<Rightarrow>
          s\<lparr>base := full (rows s) (cols s) ((temp_min s + temp_max s) / 2),
            loads := path # loads s\<rparr>)"

text \<open>The constructor; \<open>base\<close> has no value before \<open>_load_image\<close> assigns it.\<close>

definition SimulatedSensor ::
  "files \<Rightarrow> string \<Rightarrow> nat \<Rightarrow> nat \<Rightarrow> real \<Rightarrow> real \<Rightarrow> real \<Rightarrow> sensor" where
  "SimulatedSensor fs path r c tmin tmax nstd =
     load_image fs path
       \<lparr>rows = r, cols = c, temp_min = tmin, temp_max = tmax, noise_std = nstd,
        t = 0, image_path = path, simulation_mode = ''baja_diferencia'',
        foot = ''izquierdo'', base = zeros 0 0, loads = []\<rparr>"

text \<open>The dictionary \<open>image_map\<close> with its \<open>get\<close> default.\<close>

definition image_map :: "string \<Rightarrow> string" where
  "image_map f =
     (if f = ''izquierdo'' then ''pie_izquierdo.png''
      else if f = ''derecho'' then ''pie_derecho.png''
      else ''pie_izquierdo.png'')"

text \<open>
  \<open>set_config\<close>: an argument left out (Python's \<open>None\<close>) is \<open>None\<close>. The result is
  the sensor after the call and the returned \<open>changed\<close>. The two \<open>if\<close> blocks of the
  method are \<open>set_config_mode\<close> and \<open>set_config_foot\<close>; the second one takes the sensor
  and the \<open>changed\<close> that the first one leaves.
\<close>

definition set_config_mode :: "string option \<Rightarrow> sensor \<Rightarrow> sensor \<times> bool" where
  "set_config_mode m s =
     (case m of
        None \<Rightarrow> (s, False)
      | Some v \<Rightarrow>
          if v \<noteq> [] \<and> v \<in> set [''baja_diferencia'', ''alta_diferencia''] then
            (if simulation_mode s \<noteq> v then (s\<lparr>simulation_mode := v\<rparr>, True) else (s, False))
          else (s, False))"

definition set_config_foot :: "files \<Rightarrow> string option \<Rightarrow> sensor \<times> bool \<Rightarrow> sensor \<times> bool" where
  "set_config_foot fs f sc =
     (case f of
        None \<Rightarrow> sc
      | Some v \<Rightarrow>
          if v \<noteq> [] \<and> v \<in> set [''izquierdo'', ''derecho''] then
            (if foot (fst sc) \<noteq> v then
               (let s1 = (fst sc)\<lparr>foot := v\<rparr>;
                    path = image_map v
                in if path \<noteq> image_path s1
                   then (load_image fs path (s1\<lparr>image_path := path\<rparr>), True)
                   else (s1, True))
             else sc)
          else sc)"

definition set_config :: "files \<Rightarrow> string option \<Rightarrow> string option \<Rightarrow> sensor \<Rightarrow> sensor \<times> bool" where
  "set_config fs m f s = set_config_foot fs f (set_config_mode m s)"

definition calculate_temperature_offset :: "sensor \<Rightarrow> ndarray" where
  "calculate_temperature_offset s =
     (let offset_map = zeros (nrows (base s)) (ncols (base s))
      in if simulation_mode s = ''baja_diferencia''
         then fill offset_map (if foot s = ''izquierdo'' then - 0.3 else 0.3)
         else if foot s = ''izquierdo'' then fill offset_map (- 1.5)
         else offset_map)"

text \<open>
  \<open>get_frame\<close>: the Gaussian sample that \<open>np.random.normal\<close> draws for the call is
  the argument \<open>normal\<close>, one value per cell of the shape of \<open>base\<close>.
\<close>

definition get_frame :: "(nat \<Rightarrow> nat \<Rightarrow> real) \<Rightarrow> sensor \<Rightarrow> sensor \<times> ndarray" where
  "get_frame normal s =
     (let s1 = s\<lparr>t := t s + 0.05\<rparr>;
          drift = 0.3 * sin (t s1);
          noise = \<lparr>nrows = nrows (base s1), ncols = ncols (base s1), cell = normal\<rparr>;
          temp_offset = calculate_temperature_offset s1;
          frame = add (add (map_cells (\<lambda>v. v + drift) (base s1)) noise) temp_offset
      in (s1, frame))"

section \<open>The connection handler \<open>frame_producer\<close>\<close>

definition FPS :: real where
  "FPS = 4.0"

definition INTERVAL :: real where
  "INTERVAL = 1.0 / FPS"

definition VALID_SIMULATION_MODES :: "string list" where
  "VALID_SIMULATION_MODES = [''baja_diferencia'', ''alta_diferencia'']"

definition VALID_FEET :: "string list" where
  "VALID_FEET = [''izquierdo'', ''derecho'']"

text \<open>The argument of \<open>asyncio.sleep\<close> in \<open>send_frames\<close>, from the elapsed time.\<close>

definition sleep_time :: "real \<Rightarrow> real" where
  "sleep_time elapsed = max 0.0 (INTERVAL - elapsed)"

subsection \<open>Messages\<close>

text \<open>
  What \<open>json.loads\<close> returns: a JSON value, an object being a Python dictionary from
  its keys to values. A Python \<open>str\<close> is given by its bytes in UTF-8; a lone surrogate
  (\<open>U+D800\<close> to \<open>U+DFFF\<close>, which \<open>json.loads\<close> makes of an escape such as \<open>\ud800\<close>) is
  given by the three bytes \<open>ED\<close>, \<open>A0\<close> to \<open>BF\<close>, \<open>80\<close> to \<open>BF\<close>, which no other character
  has.
\<close>

datatype json =
  JNull
  | JBool bool
  | JNum real
  | JStr string
  | JArr "json list"
  | JObj "string \<Rightarrow> json option"

text \<open>
  How \<open>json.loads(message)\<close> ends: with the \<open>JSONDecodeError\<close> that the handlers catch,
  with an exception of another class (\<open>UnicodeDecodeError\<close> for bytes that are not UTF-8
  such as \<open>b'\x80'\<close>, \<open>ValueError\<close> for an integer of more than 4300 digits,
  \<open>RecursionError\<close> for deeply nested brackets), or with the value.
\<close>

datatype decoded = JSONDecodeError | OtherException | Loaded json

text \<open>
  The exceptions that the handling of a message can raise: the one of \<open>json.loads\<close> that
  is not a \<open>JSONDecodeError\<close>, and the one of \<open>print\<close>.
\<close>

datatype exn = LoadsException | UnicodeEncodeError

text \<open>
  How \<open>asyncio.wait_for(websocket.recv(), timeout)\<close> ends: with a message (given by
  what \<open>json.loads\<close> makes of it), or with one of the exceptions the handler tells apart.
  \<open>websocket.send\<close> likewise.
\<close>

datatype recv_result = Message decoded | TimeoutError | RecvConnectionClosed | RecvException

datatype send_result = SendOk | SendConnectionClosed | SendException

text \<open>
  \<open>print(f"... {x}")\<close> for a JSON value \<open>x\<close>. The standard output is taken to be a text
  stream in UTF-8. A \<open>str\<close> is written as it is, and a lone surrogate in it cannot be
  encoded: \<open>print\<close> raises \<open>UnicodeEncodeError\<close>. Any other value is written by its
  \<open>repr\<close>, which escapes surrogates. The other calls of \<open>print\<close> in the handler write
  text of the program, valid modes and feet, the peer's address, or the received message
  (a \<open>str\<close> that the transport decoded from UTF-8, or the \<open>repr\<close> of bytes): they return.
\<close>

fun has_surrogate :: "string \<Rightarrow> bool" where
  "has_surrogate (a # b # cs) =
     ((of_char a = (0xED :: nat) \<and> (0xA0 :: nat) \<le> of_char b) \<or> has_surrogate (b # cs))"
| "has_surrogate cs = False"

definition printable :: "json \<Rightarrow> bool" where
  "printable x = (case x of JStr v \<Rightarrow> \<not> has_surrogate v | _ \<Rightarrow> True)"

text \<open>
  \<open>isinstance(x, dict)\<close>, and \<open>x in names\<close> for a JSON value \<open>x\<close> and a list of strings.
\<close>

definition is_dict :: "json \<Rightarrow> bool" where
  "is_dict x = (case x of JObj kv \<Rightarrow> True | _ \<Rightarrow> False)"

definition json_in :: "json \<Rightarrow> string list \<Rightarrow> bool" where
  "json_in x names = (case x of JStr v \<Rightarrow> v \<in> set names | _ \<Rightarrow> False)"

definition str_of :: "json \<Rightarrow> string" where
  "str_of x = (case x of JStr v \<Rightarrow> v | _ \<Rightarrow> [])"

text \<open>
  The value of a field of a message when the field is present and its value is one of
  \<open>names\<close>: what the handler passes on to \<open>set_config\<close>.
\<close>

definition valid_field :: "(string \<Rightarrow> json option) \<Rightarrow> string \<Rightarrow> string list \<Rightarrow> string option" where
  "valid_field msg_data key names =
     (case msg_data key of
        None \<Rightarrow> None
      | Some x \<Rightarrow> if json_in x names then Some (str_of x) else None)"

subsection \<open>The state of one connection\<close>

text \<open>
  The variables that the closures \<open>send_frames\<close> and \<open>receive_messages\<close> share with
  \<open>frame_producer\<close>.
\<close>

record session =
  current_simulation_mode :: string
  current_foot :: string
  sensor :: sensor
  running :: bool

definition new_session :: "files \<Rightarrow> session" where
  "new_session fs =
     \<lparr>current_simulation_mode = ''baja_diferencia'',
      current_foot = ''izquierdo'',
      sensor = fst (set_config fs (Some ''baja_diferencia'') (Some ''izquierdo'')
                 (SimulatedSensor fs ''pie_izquierdo.png'' 32 24 28.0 38.0 0.15)),
      running = True\<rparr>"

text \<open>The body of \<open>if isinstance(msg_data, dict)\<close> in the handshake.\<close>

definition handshake_config :: "files \<Rightarrow> (string \<Rightarrow> json option) \<Rightarrow> session \<Rightarrow> session" where
  "handshake_config fs msg_data ss =
     (let ss1 =
        (case msg_data ''simulation_mode'' of
           None \<Rightarrow> ss
         | Some sim_mode \<Rightarrow>
             if json_in sim_mode VALID_SIMULATION_MODES then
               ss\<lparr>current_simulation_mode := str_of sim_mode,
                  sensor := fst (set_config fs (Some (str_of sim_mode)) None (sensor ss))\<rparr>
             else ss)
      in case msg_data ''foot'' of
           None \<Rightarrow> ss1
         | Some ft \<Rightarrow>
             if json_in ft VALID_FEET then
               ss1\<lparr>current_foot := str_of ft,
                   sensor := fst (set_config fs None (Some (str_of ft)) (sensor ss1))\<rparr>
             else ss1)"

text \<open>
  The same body in \<open>receive_messages\<close>, which also keeps the local \<open>changed\<close> (used for
  the log line only) and prints a value that is not valid. The result is \<open>Inr\<close> with the
  session and \<open>changed\<close> when the body comes to its end, and \<open>Inl\<close> with the exception
  and the session as it then is when a \<open>print\<close> raises: what follows the \<open>print\<close> is
  not run.
\<close>

definition receive_config ::
  "files \<Rightarrow> (string \<Rightarrow> json option) \<Rightarrow> session \<Rightarrow> exn \<times> session + session \<times> bool" where
  "receive_config fs msg_data ss =
     (case (case msg_data ''simulation_mode'' of
              None \<Rightarrow> Inr (ss, False)
            | Some sim_mode \<Rightarrow>
                if json_in sim_mode VALID_SIMULATION_MODES then
                  Inr (ss\<lparr>current_simulation_mode := str_of sim_mode,
                         sensor := fst (set_config fs (Some (str_of sim_mode)) None (sensor ss))\<rparr>,
                       True)
                else if printable sim_mode then Inr (ss, False)
                else Inl (UnicodeEncodeError, ss)) of
        Inl raised \<Rightarrow> Inl raised
      | Inr (ss1, changed1) \<Rightarrow>
          (case msg_data ''foot'' of
             None \<Rightarrow> Inr (ss1, changed1)
           | Some ft \<Rightarrow>
               if json_in ft VALID_FEET then
                 Inr (ss1\<lparr>current_foot := str_of ft,
                          sensor := fst (set_config fs None (Some (str_of ft)) (sensor ss1))\<rparr>,
                      True)
               else if printable ft then Inr (ss1, changed1)
               else Inl (UnicodeEncodeError, ss1)))"

subsection \<open>The handshake\<close>

text \<open>
  After the handshake the handler either starts the two loops (\<open>Streaming\<close>) or, when the
  wait ended with an exception other than the timeout or \<open>json.loads\<close> raised an exception
  other than \<open>JSONDecodeError\<close>, leaves through its outer handlers (\<open>Closed\<close>), where
  \<open>finally\<close> clears \<open>running\<close>. The handshake prints no value of the message.
\<close>

datatype phase = Streaming | Closed

definition handshake :: "files \<Rightarrow> recv_result \<Rightarrow> session \<Rightarrow> session \<times> phase" where
  "handshake fs r ss =
     (case r of
        Message d \<Rightarrow>
          (case d of
             Loaded msg_data \<Rightarrow>
               (case msg_data of
                  JObj kv \<Rightarrow> (handshake_config fs kv ss, Streaming)
                | _ \<Rightarrow> (ss, Streaming))
           | JSONDecodeError \<Rightarrow> (ss, Streaming)
           | OtherException \<Rightarrow> (ss\<lparr>running := False\<rparr>, Closed))
      | TimeoutError \<Rightarrow> (ss, Streaming)
      | RecvConnectionClosed \<Rightarrow> (ss\<lparr>running := False\<rparr>, Closed)
      | RecvException \<Rightarrow> (ss\<lparr>running := False\<rparr>, Closed))"

subsection \<open>The frame message\<close>

record payload =
  payload_simulation_mode :: string
  payload_foot :: string
  payload_timestamp :: real
  payload_rows :: nat
  payload_cols :: nat
  payload_data :: "real list"

text \<open>
  The first half of the body of \<open>send_frames\<close>: the frame and the dictionary given to
  \<open>json.dumps\<close>. \<open>now\<close> is what \<open>time.time()\<close> returns for the timestamp.
\<close>

definition build_payload :: "(nat \<Rightarrow> nat \<Rightarrow> real) \<Rightarrow> real \<Rightarrow> session \<Rightarrow> session \<times> payload" where
  "build_payload normal now ss =
     (let (s1, frame) = get_frame normal (sensor ss)
      in (ss\<lparr>sensor := s1\<rparr>,
          \<lparr>payload_simulation_mode = current_simulation_mode ss,
           payload_foot = current_foot ss,
           payload_timestamp = now,
           payload_rows = rows s1,
           payload_cols = cols s1,
           payload_data = ravel frame\<rparr>))"

subsection \<open>The two loops\<close>

text \<open>
  \<open>asyncio.gather\<close> runs \<open>send_frames\<close> and \<open>receive_messages\<close> as two tasks of one
  event loop: a task runs alone from one \<open>await\<close> to the next. A task is therefore at
  one of the following places.

  \<^item> \<open>send_frames\<close>: before its first test of \<open>running\<close>; inside
    \<open>await websocket.send\<close>, with the \<open>t0\<close> of the pass; inside \<open>await asyncio.sleep\<close>,
    with the duration asked for; or returned.
  \<^item> \<open>receive_messages\<close>: before its first test of \<open>running\<close>; inside
    \<open>await asyncio.wait_for(websocket.recv(), timeout=0.1)\<close>; or returned.
\<close>

datatype sender_pc = SenderHead | SenderSending real | SenderSleeping real | SenderDone

datatype receiver_pc = ReceiverHead | ReceiverWaiting | ReceiverDone

text \<open>
  \<open>outbox\<close> holds the messages handed to \<open>websocket.send\<close>, newest first.
\<close>

record stream =
  shared :: session
  sender :: sender_pc
  receiver :: receiver_pc
  outbox :: "payload list"

definition start_streaming :: "session \<Rightarrow> stream" where
  "start_streaming ss =
     \<lparr>shared = ss, sender = SenderHead, receiver = ReceiverHead, outbox = []\<rparr>"

text \<open>
  The event loop resumes one task at a time, with what the world delivers to it:
  \<^item> \<open>SenderRuns normal t0 now\<close>: \<open>send_frames\<close> starts, or its sleep is over; the Gaussian
    sample and the two clock readings of the pass;
  \<^item> \<open>SendReturns r t1\<close>: \<open>websocket.send\<close> ends with \<open>r\<close>; \<open>t1\<close> is the clock reading
    taken for \<open>elapsed\<close>;
  \<^item> \<open>ReceiverRuns\<close>: \<open>receive_messages\<close> starts;
  \<^item> \<open>RecvReturns r\<close>: the wait for a message ends with \<open>r\<close>.
\<close>

datatype event =
  SenderRuns "nat \<Rightarrow> nat \<Rightarrow> real" real real
  | SendReturns send_result real
  | ReceiverRuns
  | RecvReturns recv_result

text \<open>An event can only resume a task that is at the matching place.\<close>

fun enabled :: "event \<Rightarrow> stream \<Rightarrow> bool" where
  "enabled (SenderRuns normal t0 now) st =
     (case sender st of SenderHead \<Rightarrow> True | SenderSleeping d \<Rightarrow> True | _ \<Rightarrow> False)"
| "enabled (SendReturns r t1) st =
     (case sender st of SenderSending t0 \<Rightarrow> True | _ \<Rightarrow> False)"
| "enabled ReceiverRuns st = (receiver st = ReceiverHead)"
| "enabled (RecvReturns r) st = (receiver st = ReceiverWaiting)"

text \<open>The test \<open>while running\<close> of each loop, reached without an \<open>await\<close> in between.\<close>

definition sender_head :: "(nat \<Rightarrow> nat \<Rightarrow> real) \<Rightarrow> real \<Rightarrow> real \<Rightarrow> stream \<Rightarrow> stream" where
  "sender_head normal t0 now st =
     (if running (shared st) then
        (let (ss, p) = build_payload normal now (shared st)
         in st\<lparr>shared := ss, sender := SenderSending t0, outbox := p # outbox st\<rparr>)
      else st\<lparr>sender := SenderDone\<rparr>)"

definition receiver_head :: "stream \<Rightarrow> stream" where
  "receiver_head st =
     (if running (shared st) then st\<lparr>receiver := ReceiverWaiting\<rparr>
      else st\<lparr>receiver := ReceiverDone\<rparr>)"

definition stop :: "stream \<Rightarrow> stream" where
  "stop st = st\<lparr>shared := (shared st)\<lparr>running := False\<rparr>\<rparr>"

text \<open>
  What the body of \<open>receive_messages\<close> does with a message: \<open>Inr\<close> with the session when
  it comes to its end (also through \<open>except json.JSONDecodeError\<close>), \<open>Inl\<close> when an
  exception leaves it for \<open>except Exception\<close>.
\<close>

definition receive_message :: "files \<Rightarrow> decoded \<Rightarrow> session \<Rightarrow> exn \<times> session + session" where
  "receive_message fs d ss =
     (case d of
        Loaded msg_data \<Rightarrow>
          (case msg_data of
             JObj kv \<Rightarrow>
               (case receive_config fs kv ss of
                  Inl raised \<Rightarrow> Inl raised
                | Inr (ss1, changed) \<Rightarrow> Inr ss1)
           | _ \<Rightarrow> Inr ss)
      | JSONDecodeError \<Rightarrow> Inr ss
      | OtherException \<Rightarrow> Inl (LoadsException, ss))"

fun step :: "files \<Rightarrow> event \<Rightarrow> stream \<Rightarrow> stream" where
  "step fs (SenderRuns normal t0 now) st =
     (if enabled (SenderRuns normal t0 now) st then sender_head normal t0 now st else st)"
| "step fs (SendReturns r t1) st =
     (case sender st of
        SenderSending t0 \<Rightarrow>
          (case r of
             SendOk \<Rightarrow> st\<lparr>sender := SenderSleeping (sleep_time (t1 - t0))\<rparr>
           | SendConnectionClosed \<Rightarrow> (stop st)\<lparr>sender := SenderDone\<rparr>
           | SendException \<Rightarrow> (stop st)\<lparr>sender := SenderDone\<rparr>)
      | _ \<Rightarrow> st)"
| "step fs ReceiverRuns st =
     (if enabled ReceiverRuns st then receiver_head st else st)"
| "step fs (RecvReturns r) st =
     (if enabled (RecvReturns r) st then
        (case r of
           Message d \<Rightarrow>
             (case receive_message fs d (shared st) of
                Inr ss \<Rightarrow> receiver_head (st\<lparr>shared := ss\<rparr>)
              | Inl (e, ss) \<Rightarrow> (stop (st\<lparr>shared := ss\<rparr>))\<lparr>receiver := ReceiverDone\<rparr>)
         | TimeoutError \<Rightarrow> receiver_head st
         | RecvConnectionClosed \<Rightarrow> (stop st)\<lparr>receiver := ReceiverDone\<rparr>
         | RecvException \<Rightarrow> (stop st)\<lparr>receiver := ReceiverDone\<rparr>)
      else st)"

text \<open>A schedule: events taken one after the other, each one enabled when it is taken.\<close>

fun schedule :: "files \<Rightarrow> event list \<Rightarrow> stream \<Rightarrow> bool" where
  "schedule fs [] st = True"
| "schedule fs (e # es) st = (enabled e st \<and> schedule fs es (step fs e st))"

fun run :: "files \<Rightarrow> event list \<Rightarrow> stream \<Rightarrow> stream" where
  "run fs [] st = st"
| "run fs (e # es) st = run fs es (step fs e st)"

text \<open>\<open>gather\<close> returns, and the handler ends, when both loops have returned.\<close>

definition finished :: "stream \<Rightarrow> bool" where
  "finished st = (sender st = SenderDone \<and> receiver st = ReceiverDone)"

text \<open>
  The number of times a task can still be resumed once \<open>running\<close> is false.
\<close>

fun sender_rank :: "sender_pc \<Rightarrow> nat" where
  "sender_rank SenderHead = 1"
| "sender_rank (SenderSending t0) = 2"
| "sender_rank (SenderSleeping d) = 1"
| "sender_rank SenderDone = 0"

fun receiver_rank :: "receiver_pc \<Rightarrow> nat" where
  "receiver_rank ReceiverHead = 1"
| "receiver_rank ReceiverWaiting = 1"
| "receiver_rank ReceiverDone = 0"

definition rank :: "stream \<Rightarrow> nat" where
  "rank st = sender_rank (sender st) + receiver_rank (receiver st)"

text \<open>
  The events in which \<open>send\<close> or the wait for a message ends with \<open>ConnectionClosed\<close>
  or with another exception that is not the timeout: the closed connection and the faults
  of the transport.
\<close>

fun fault :: "event \<Rightarrow> bool" where
  "fault (SendReturns r t1) = (r = SendConnectionClosed \<or> r = SendException)"
| "fault (RecvReturns r) = (r = RecvConnectionClosed \<or> r = RecvException)"
| "fault e = False"

subsection \<open>Sensors and sessions the program can build\<close>

text \<open>
  The sensors that the class makes: built by the constructor, then changed by
  \<open>set_config\<close> and \<open>get_frame\<close> only.
\<close>

inductive made :: "files \<Rightarrow> sensor \<Rightarrow> bool" for fs :: files where
  made_init: "made fs (SimulatedSensor fs path r c tmin tmax nstd)"
| made_set_config: "made fs s \<Longrightarrow> made fs (fst (set_config fs m f s))"
| made_get_frame: "made fs s \<Longrightarrow> made fs (fst (get_frame normal s))"

definition shape_ok :: "sensor \<Rightarrow> bool" where
  "shape_ok s = (nrows (base s) = rows s \<and> ncols (base s) = cols s)"

text \<open>
  What holds of the session of \<open>frame_producer\<close> from its creation on: the variables
  \<open>current_simulation_mode\<close> and \<open>current_foot\<close> agree with the sensor, whose base matrix
  has the sensor's size and whose loaded image is the one of its foot.
\<close>

definition path_ok :: "sensor \<Rightarrow> bool" where
  "path_ok s = (foot s \<in> set VALID_FEET \<and> image_path s = image_map (foot s))"

definition in_sync :: "session \<Rightarrow> bool" where
  "in_sync ss =
     (current_simulation_mode ss = simulation_mode (sensor ss) \<and>
      current_foot ss = foot (sensor ss) \<and>
      shape_ok (sensor ss) \<and> path_ok (sensor ss))"

subsection \<open>Concrete inputs\<close>

text \<open>
  A disk without image files, a disk whose \<open>pie_izquierdo.png\<close> is uniformly grey, a
  Gaussian sample, and some sensors: the one the constructor makes from its default
  arguments, the one of a new session with its configuration set, and one made from the
  image of the right foot.
\<close>

definition no_files :: files where
  "no_files = (\<lambda>path. None)"

definition grey_image :: "nat \<Rightarrow> nat \<Rightarrow> real" where
  "grey_image = (\<lambda>i j. 128)"

definition grey_files :: files where
  "grey_files = (\<lambda>path. if path = ''pie_izquierdo.png'' then Some grey_image else None)"

definition sample :: "nat \<Rightarrow> nat \<Rightarrow> real" where
  "sample = (\<lambda>i j. if i = j then 0.1 else - 0.2)"

definition default_sensor :: "files \<Rightarrow> sensor" where
  "default_sensor fs = SimulatedSensor fs ''pie_solo.jpg'' 32 24 28.0 38.0 0.15"

definition demo :: "string option \<Rightarrow> string option \<Rightarrow> sensor" where
  "demo m f =
     fst (set_config no_files m f
            (SimulatedSensor no_files ''pie_izquierdo.png'' 32 24 28.0 38.0 0.15))"

definition right_image_sensor :: sensor where
  "right_image_sensor = SimulatedSensor no_files ''pie_derecho.png'' 32 24 28.0 38.0 0.15"

text \<open>
  Some messages, as the dictionaries that \<open>json.loads\<close> returns: one that sets the right
  foot, and one whose mode is the string of the lone surrogate \<open>U+D800\<close> and whose foot is
  valid.
\<close>

definition lone_surrogate :: string where
  "lone_surrogate = [CHR 0xED, CHR 0xA0, CHR 0x80]"

definition msg_surrogate_mode :: "string \<Rightarrow> json option" where
  "msg_surrogate_mode =
     [''simulation_mode'' \<mapsto> JStr lone_surrogate, ''foot'' \<mapsto> JStr ''derecho'']"

definition msg_right_foot :: "string \<Rightarrow> json option" where
  "msg_right_foot = [''foot'' \<mapsto> JStr ''derecho'']"

text \<open>
  Some states of the two loops: both tasks waiting (the sender for its \<open>send\<close>, the
  receiver for a message), with the steps that are left to the sender once \<open>running\<close> is
  cleared; and the state in which the receiver has applied a message that sets the right
  foot, after a handshake that timed out, and the sender has not yet run.
\<close>

definition both_running :: stream where
  "both_running =
     run no_files [SenderRuns sample 10 10, ReceiverRuns] (start_streaming (new_session no_files))"

definition last_steps :: "event list" where
  "last_steps = [SendReturns SendOk 10.1, SenderRuns sample 10.25 10.25]"

definition configured :: stream where
  "configured =
     run no_files [ReceiverRuns, RecvReturns (Message (Loaded (JObj msg_right_foot)))]
       (start_streaming (fst (handshake no_files TimeoutError (new_session no_files))))"

section \<open>Properties of the sensor\<close>

subsection \<open>Shapes\<close>

lemma load_image_shape: "shape_ok (load_image fs path s)"
  by (simp add: load_image_def shape_ok_def Let_def full_def map_cells_def zeros_like_def zeros_def
      split: option.split)

lemma load_image_fields:
  "rows (load_image fs path s) = rows s"
  "cols (load_image fs path s) = cols s"
  "foot (load_image fs path s) = foot s"
  "simulation_mode (load_image fs path s) = simulation_mode s"
  "image_path (load_image fs path s) = image_path s"
  "t (load_image fs path s) = t s"
  "temp_min (load_image fs path s) = temp_min s"
  "temp_max (load_image fs path s) = temp_max s"
  "loads (load_image fs path s) = path # loads s"
  by (simp_all add: load_image_def Let_def split: option.split)

lemma shape_ok_update:
  "shape_ok (s\<lparr>simulation_mode := v\<rparr>) = shape_ok s"
  "shape_ok (s\<lparr>foot := v\<rparr>) = shape_ok s"
  "shape_ok (s\<lparr>image_path := v\<rparr>) = shape_ok s"
  "shape_ok (s\<lparr>t := x\<rparr>) = shape_ok s"
  by (simp_all add: shape_ok_def)

lemma set_config_mode_shape: "shape_ok s \<Longrightarrow> shape_ok (fst (set_config_mode m s))"
  by (simp add: set_config_mode_def shape_ok_update split: option.split)

lemma set_config_foot_shape: "shape_ok (fst sc) \<Longrightarrow> shape_ok (fst (set_config_foot fs f sc))"
  by (simp add: set_config_foot_def Let_def shape_ok_update load_image_shape split: option.split)

lemma set_config_shape: "shape_ok s \<Longrightarrow> shape_ok (fst (set_config fs m f s))"
  by (simp add: set_config_def set_config_mode_shape set_config_foot_shape)

lemma get_frame_state: "fst (get_frame normal s) = s\<lparr>t := t s + 0.05\<rparr>"
  by (simp add: get_frame_def Let_def)

lemma get_frame_shape: "shape_ok s \<Longrightarrow> shape_ok (fst (get_frame normal s))"
  by (simp add: get_frame_state shape_ok_update)

lemma made_shape_ok: "made fs s \<Longrightarrow> shape_ok s"
  by (induction rule: made.induct)
     (simp_all add: SimulatedSensor_def load_image_shape set_config_shape get_frame_shape)

subsection \<open>The concrete sensors\<close>

lemma demo_cfg:
  "simulation_mode (demo None None) = ''baja_diferencia''"
  "foot (demo None None) = ''izquierdo''"
  "simulation_mode (demo None (Some ''derecho'')) = ''baja_diferencia''"
  "foot (demo None (Some ''derecho'')) = ''derecho''"
  "simulation_mode (demo (Some ''alta_diferencia'') None) = ''alta_diferencia''"
  "foot (demo (Some ''alta_diferencia'') None) = ''izquierdo''"
  "simulation_mode (demo (Some ''alta_diferencia'') (Some ''derecho'')) = ''alta_diferencia''"
  "foot (demo (Some ''alta_diferencia'') (Some ''derecho'')) = ''derecho''"
  by (simp_all add: demo_def set_config_def set_config_mode_def set_config_foot_def Let_def
      load_image_fields SimulatedSensor_def image_map_def)

lemma demo_size: "rows (demo m f) = 32" "cols (demo m f) = 24"
  by (simp_all add: demo_def set_config_def set_config_mode_def set_config_foot_def Let_def
      load_image_fields SimulatedSensor_def split: option.split)

lemma demo_made: "made no_files (demo m f)"
  unfolding demo_def by (intro made_set_config made_init)

lemma default_sensor_fields:
  "rows (default_sensor fs) = 32"
  "cols (default_sensor fs) = 24"
  "temp_min (default_sensor fs) = 28"
  "temp_max (default_sensor fs) = 38"
  "foot (default_sensor fs) = ''izquierdo''"
  "simulation_mode (default_sensor fs) = ''baja_diferencia''"
  "image_path (default_sensor fs) = ''pie_solo.jpg''"
  "loads (default_sensor fs) = [''pie_solo.jpg'']"
  "t (default_sensor fs) = 0"
  by (simp_all add: default_sensor_def SimulatedSensor_def load_image_def Let_def
      split: option.split)

subsection \<open>The offset\<close>

text \<open>
  C1. The offset map is the same at every cell: \<open>-0.3\<close> for the low difference and the
  left foot, \<open>0.3\<close> for the low difference and the right foot, \<open>-1.5\<close> for the high
  difference and the left foot, \<open>0\<close> for the high difference and the right foot; for a
  sensor made by the class its shape is \<open>rows \<times> cols\<close>.
\<close>

theorem offset_table:
  "(simulation_mode s = ''baja_diferencia'' \<and> foot s = ''izquierdo'' \<longrightarrow>
      (\<forall>i j. cell (calculate_temperature_offset s) i j = - 0.3)) \<and>
   (simulation_mode s = ''baja_diferencia'' \<and> foot s = ''derecho'' \<longrightarrow>
      (\<forall>i j. cell (calculate_temperature_offset s) i j = 0.3)) \<and>
   (simulation_mode s = ''alta_diferencia'' \<and> foot s = ''izquierdo'' \<longrightarrow>
      (\<forall>i j. cell (calculate_temperature_offset s) i j = - 1.5)) \<and>
   (simulation_mode s = ''alta_diferencia'' \<and> foot s = ''derecho'' \<longrightarrow>
      (\<forall>i j. cell (calculate_temperature_offset s) i j = 0)) \<and>
   (made fs s \<longrightarrow> nrows (calculate_temperature_offset s) = rows s \<and>
      ncols (calculate_temperature_offset s) = cols s)"
  using made_shape_ok [of fs s]
  by (simp add: calculate_temperature_offset_def Let_def fill_def zeros_def shape_ok_def)

theorem offset_table_witness:
  "simulation_mode (demo None None) = ''baja_diferencia'' \<and>
   foot (demo None None) = ''izquierdo'' \<and>
   cell (calculate_temperature_offset (demo None None)) 31 23 = - 0.3 \<and>
   simulation_mode (demo None (Some ''derecho'')) = ''baja_diferencia'' \<and>
   foot (demo None (Some ''derecho'')) = ''derecho'' \<and>
   cell (calculate_temperature_offset (demo None (Some ''derecho''))) 31 23 = 0.3 \<and>
   simulation_mode (demo (Some ''alta_diferencia'') None) = ''alta_diferencia'' \<and>
   foot (demo (Some ''alta_diferencia'') None) = ''izquierdo'' \<and>
   cell (calculate_temperature_offset (demo (Some ''alta_diferencia'') None)) 31 23 = - 1.5 \<and>
   simulation_mode (demo (Some ''alta_diferencia'') (Some ''derecho'')) = ''alta_diferencia'' \<and>
   foot (demo (Some ''alta_diferencia'') (Some ''derecho'')) = ''derecho'' \<and>
   cell (calculate_temperature_offset (demo (Some ''alta_diferencia'') (Some ''derecho''))) 31 23 = 0 \<and>
   made no_files (demo None None) \<and>
   nrows (calculate_temperature_offset (demo None None)) = 32 \<and>
   ncols (calculate_temperature_offset (demo None None)) = 24"
  using offset_table [of "demo None None" no_files]
    offset_table [of "demo None (Some ''derecho'')" no_files]
    offset_table [of "demo (Some ''alta_diferencia'') None" no_files]
    offset_table [of "demo (Some ''alta_diferencia'') (Some ''derecho'')" no_files]
  by (simp add: demo_cfg demo_size demo_made)

subsection \<open>Loading an image\<close>

lemma ravel_set:
  "set (ravel a) = {cell a i j | i j. i < nrows a \<and> j < ncols a}"
  by (auto simp: ravel_def) blast

lemma ravel_constant:
  assumes "0 < nrows a" "0 < ncols a" "\<forall>i<nrows a. \<forall>j<ncols a. cell a i j = g"
  shows "set (ravel a) = {g}"
  using assms by (auto simp: ravel_set)

lemma constant_min_max:
  assumes "0 < nrows a" "0 < ncols a" "\<forall>i<nrows a. \<forall>j<ncols a. cell a i j = g"
  shows "arr_max a = arr_min a"
  by (simp add: arr_max_def arr_min_def ravel_constant [OF assms])

text \<open>
  C10. When the file exists and every pixel of the (non-empty) resized image has the same
  grey level, the base matrix is \<open>temp_min\<close> at every cell; when the file is absent it is
  the midpoint at every cell; and the two differ as soon as \<open>temp_min\<close> and \<open>temp_max\<close> do.
\<close>

theorem constant_image_base:
  "(fs path = Some px \<and> 0 < rows s \<and> 0 < cols s \<and> (\<forall>i<rows s. \<forall>j<cols s. px i j = g) \<longrightarrow>
      base (load_image fs path s) = full (rows s) (cols s) (temp_min s)) \<and>
   (fs path = None \<longrightarrow>
      base (load_image fs path s) = full (rows s) (cols s) ((temp_min s + temp_max s) / 2)) \<and>
   (temp_min s \<noteq> temp_max s \<longrightarrow> temp_min s \<noteq> (temp_min s + temp_max s) / 2)"
proof (intro conjI impI)
  assume h: "fs path = Some px \<and> 0 < rows s \<and> 0 < cols s \<and> (\<forall>i<rows s. \<forall>j<cols s. px i j = g)"
  let ?arr = "\<lparr>nrows = rows s, ncols = cols s, cell = px\<rparr>"
  from h have "arr_max ?arr = arr_min ?arr"
    by (intro constant_min_max [where g = g]) simp_all
  with h show "base (load_image fs path s) = full (rows s) (cols s) (temp_min s)"
    by (simp add: load_image_def Let_def zeros_like_def zeros_def map_cells_def full_def)
next
  assume "fs path = None"
  then show "base (load_image fs path s) = full (rows s) (cols s) ((temp_min s + temp_max s) / 2)"
    by (simp add: load_image_def)
next
  assume "temp_min s \<noteq> temp_max s"
  then show "temp_min s \<noteq> (temp_min s + temp_max s) / 2"
    by (simp add: field_simps)
qed

theorem constant_image_base_witness:
  "grey_files ''pie_izquierdo.png'' = Some grey_image \<and> grey_image 31 23 = 128 \<and>
   base (load_image grey_files ''pie_izquierdo.png'' (default_sensor grey_files)) = full 32 24 28 \<and>
   grey_files ''pie_solo.jpg'' = None \<and>
   base (load_image grey_files ''pie_solo.jpg'' (default_sensor grey_files)) = full 32 24 33 \<and>
   temp_min (default_sensor grey_files) \<noteq> temp_max (default_sensor grey_files)"
  using constant_image_base [of grey_files "''pie_izquierdo.png''" grey_image
      "default_sensor grey_files" 128]
    constant_image_base [of grey_files "''pie_solo.jpg''" grey_image
      "default_sensor grey_files" 128]
  by (simp add: default_sensor_fields grey_files_def grey_image_def)

section \<open>Properties of \<open>set_config\<close>\<close>


lemma set_config_mode_again:
  "set_config_mode m (fst (set_config_mode m s)) = (fst (set_config_mode m s), False)"
  by (simp add: set_config_mode_def split: option.split)

lemma set_config_mode_fields:
  "foot (fst (set_config_mode m s)) = foot s"
  "image_path (fst (set_config_mode m s)) = image_path s"
  "loads (fst (set_config_mode m s)) = loads s"
  "base (fst (set_config_mode m s)) = base s"
  "rows (fst (set_config_mode m s)) = rows s"
  "cols (fst (set_config_mode m s)) = cols s"
  "temp_min (fst (set_config_mode m s)) = temp_min s"
  "temp_max (fst (set_config_mode m s)) = temp_max s"
  by (simp_all add: set_config_mode_def split: option.split)

lemma set_config_mode_commute:
  "set_config_mode m s = (s, False) \<Longrightarrow>
     set_config_mode m (s\<lparr>foot := v\<rparr>) = (s\<lparr>foot := v\<rparr>, False)"
  "set_config_mode m s = (s, False) \<Longrightarrow>
     set_config_mode m (s\<lparr>image_path := p\<rparr>) = (s\<lparr>image_path := p\<rparr>, False)"
  "set_config_mode m s = (s, False) \<Longrightarrow>
     set_config_mode m (load_image fs p s) = (load_image fs p s, False)"
  by (auto simp: set_config_mode_def load_image_fields split: option.splits if_splits)

lemma load_image_base_cong:
  "rows s' = rows s \<Longrightarrow> cols s' = cols s \<Longrightarrow> temp_min s' = temp_min s \<Longrightarrow>
   temp_max s' = temp_max s \<Longrightarrow> base (load_image fs p s') = base (load_image fs p s)"
  by (simp add: load_image_def Let_def split: option.split)

lemma set_config_foot_changes:
  assumes "v \<in> set [''izquierdo'', ''derecho'']" and "v \<noteq> foot s"
  shows "set_config fs m (Some v) s =
      (if image_map v \<noteq> image_path s
       then (load_image fs (image_map v)
               ((fst (set_config_mode m s))\<lparr>foot := v, image_path := image_map v\<rparr>), True)
       else ((fst (set_config_mode m s))\<lparr>foot := v\<rparr>, True))"
proof -
  have ne: "v \<noteq> []" using assms(1) by auto
  have f1: "foot (fst (set_config_mode m s)) \<noteq> v"
    using assms(2) by (simp add: set_config_mode_fields)
  show ?thesis
    using assms(1) ne f1
    by (simp add: set_config_def set_config_foot_def Let_def set_config_mode_fields)
qed

lemma set_config_foot_twice:
  assumes "v \<in> set [''izquierdo'', ''derecho'']" and "v \<noteq> foot s"
  shows "set_config fs m (Some v) (fst (set_config fs m (Some v) s))
      = (fst (set_config fs m (Some v) s), False)"
proof -
  let ?r = "fst (set_config fs m (Some v) s)"
  note r = set_config_foot_changes [OF assms, of fs m]
  have again: "set_config_mode m ?r = (?r, False)"
    by (simp add: r set_config_mode_commute set_config_mode_again)
  have footr: "foot ?r = v" by (simp add: r load_image_fields)
  show ?thesis
    unfolding set_config_def [of fs m "Some v" ?r] again
    using footr by (simp add: set_config_foot_def)
qed

lemma image_map_other_foot:
  assumes "v \<in> set [''izquierdo'', ''derecho'']" and "v \<noteq> foot s"
    and "foot s \<in> set [''izquierdo'', ''derecho'']" and "image_path s = image_map (foot s)"
  shows "image_map v \<noteq> image_path s"
  using assms by (auto simp: image_map_def)

text \<open>
  C4. Calling \<open>set_config\<close> with values equal to the current ones (or left out) returns
  \<open>changed = False\<close> and leaves the whole sensor as it was: nothing is reloaded.
\<close>

theorem set_config_same_values:
  "m = None \<or> m = Some (simulation_mode s) \<Longrightarrow> f = None \<or> f = Some (foot s) \<Longrightarrow>
   set_config fs m f s = (s, False)"
  by (auto simp: set_config_def set_config_mode_def set_config_foot_def)

theorem set_config_same_values_witness:
  "set_config no_files (Some (simulation_mode (default_sensor no_files)))
      (Some (foot (default_sensor no_files))) (default_sensor no_files)
     = (default_sensor no_files, False) \<and>
   set_config no_files None (Some (foot (default_sensor no_files))) (default_sensor no_files)
     = (default_sensor no_files, False) \<and>
   set_config no_files (Some (simulation_mode (default_sensor no_files))) None
      (default_sensor no_files)
     = (default_sensor no_files, False) \<and>
   simulation_mode (default_sensor no_files) = ''baja_diferencia'' \<and>
   foot (default_sensor no_files) = ''izquierdo''"
  using set_config_same_values [of "Some (simulation_mode (default_sensor no_files))"
      "default_sensor no_files" "Some (foot (default_sensor no_files))" no_files]
    set_config_same_values [of None "default_sensor no_files"
      "Some (foot (default_sensor no_files))" no_files]
    set_config_same_values [of "Some (simulation_mode (default_sensor no_files))"
      "default_sensor no_files" None no_files]
  by (simp add: default_sensor_fields)

text \<open>
  C3, as stated, fails for a sensor whose loaded image is already the one of the new
  foot: the sensor built from \<open>pie_derecho.png\<close> has the left foot; setting the right foot
  returns \<open>changed = True\<close> but \<open>_load_image\<close> is not called, in the first call or in
  the second.
\<close>

theorem foot_change_without_reload:
  "''derecho'' \<in> set VALID_FEET \<and>
   foot right_image_sensor \<noteq> ''derecho'' \<and>
   snd (set_config no_files None (Some ''derecho'') right_image_sensor) = True \<and>
   loads (fst (set_config no_files None (Some ''derecho'') right_image_sensor))
     = loads right_image_sensor \<and>
   base (fst (set_config no_files None (Some ''derecho'') right_image_sensor))
     = base right_image_sensor \<and>
   loads (fst (set_config no_files None (Some ''derecho'')
            (fst (set_config no_files None (Some ''derecho'') right_image_sensor))))
     = loads right_image_sensor"
  by (simp add: right_image_sensor_def SimulatedSensor_def set_config_def set_config_mode_def
      set_config_foot_def Let_def image_map_def load_image_fields VALID_FEET_def)

text \<open>
  C3, amended. Setting a valid foot that differs from the current one returns
  \<open>changed = True\<close>, sets the foot, and reloads the base matrix from the image of the new
  foot exactly when that path differs from the loaded one; this is the case whenever the
  loaded path is the image of the current (valid) foot. A second call with the same
  arguments changes nothing and reloads nothing, so the two calls reload once when the
  paths differ.
\<close>

theorem set_config_foot_change:
  assumes "v \<in> set [''izquierdo'', ''derecho'']" and "v \<noteq> foot s"
  shows "snd (set_config fs m (Some v) s) = True \<and>
    foot (fst (set_config fs m (Some v) s)) = v \<and>
    image_path (fst (set_config fs m (Some v) s)) = image_map v \<and>
    loads (fst (set_config fs m (Some v) s)) =
      (if image_map v \<noteq> image_path s then image_map v # loads s else loads s) \<and>
    base (fst (set_config fs m (Some v) s)) =
      (if image_map v \<noteq> image_path s then base (load_image fs (image_map v) s) else base s) \<and>
    (foot s \<in> set [''izquierdo'', ''derecho''] \<and> image_path s = image_map (foot s) \<longrightarrow>
       image_map v \<noteq> image_path s) \<and>
    set_config fs m (Some v) (fst (set_config fs m (Some v) s))
      = (fst (set_config fs m (Some v) s), False)"
proof -
  note r = set_config_foot_changes [OF assms, of fs m]
  have b: "base (load_image fs (image_map v)
               ((fst (set_config_mode m s))\<lparr>foot := v, image_path := image_map v\<rparr>))
      = base (load_image fs (image_map v) s)"
    by (rule load_image_base_cong) (simp_all add: set_config_mode_fields)
  show ?thesis
    using set_config_foot_twice [OF assms, of fs m] image_map_other_foot [OF assms]
    by (simp add: r b load_image_fields set_config_mode_fields)
qed

lemma demo_more:
  "image_path (demo None None) = ''pie_izquierdo.png''"
  "loads (demo None None) = [''pie_izquierdo.png'']"
  by (simp_all add: demo_def set_config_def set_config_mode_def set_config_foot_def Let_def
      load_image_fields SimulatedSensor_def image_map_def)

theorem set_config_foot_change_witness:
  "''derecho'' \<in> set [''izquierdo'', ''derecho''] \<and> ''derecho'' \<noteq> foot (demo None None) \<and>
   foot (demo None None) \<in> set [''izquierdo'', ''derecho''] \<and>
   image_path (demo None None) = image_map (foot (demo None None)) \<and>
   snd (set_config no_files None (Some ''derecho'') (demo None None)) = True \<and>
   foot (fst (set_config no_files None (Some ''derecho'') (demo None None))) = ''derecho'' \<and>
   image_path (fst (set_config no_files None (Some ''derecho'') (demo None None)))
     = ''pie_derecho.png'' \<and>
   loads (fst (set_config no_files None (Some ''derecho'') (demo None None)))
     = [''pie_derecho.png'', ''pie_izquierdo.png''] \<and>
   set_config no_files None (Some ''derecho'')
       (fst (set_config no_files None (Some ''derecho'') (demo None None)))
     = (fst (set_config no_files None (Some ''derecho'') (demo None None)), False)"
  using set_config_foot_change [of "''derecho''" "demo None None" no_files None]
  by (simp add: demo_cfg demo_more image_map_def)

section \<open>Properties of \<open>get_frame\<close>\<close>


lemma rows_length: "length (concat (map (\<lambda>i. map (f i) [0..<c]) [0..<r])) = r * c"
  by (induction r) simp_all

lemma rows_nth:
  "i < r \<Longrightarrow> j < c \<Longrightarrow> concat (map (\<lambda>i. map (f i) [0..<c]) [0..<r]) ! (i * c + j) = f i j"
proof (induction r)
  case 0
  then show ?case by simp
next
  case (Suc r)
  show ?case
  proof (cases "i < r")
    case True
    have "i * c + j < Suc i * c" using Suc.prems(2) by simp
    also have "\<dots> \<le> r * c" using True by (simp add: Suc_leI mult_le_mono1 del: mult_Suc)
    finally have "i * c + j < r * c" .
    then show ?thesis
      using Suc.IH [OF True Suc.prems(2)] by (simp add: nth_append rows_length)
  next
    case False
    with Suc.prems(1) have "i = r" by simp
    then show ?thesis using Suc.prems(2) by (simp add: nth_append rows_length)
  qed
qed

lemma ravel_length: "length (ravel a) = nrows a * ncols a"
  by (simp add: ravel_def rows_length)

lemma ravel_nth: "i < nrows a \<Longrightarrow> j < ncols a \<Longrightarrow> ravel a ! (i * ncols a + j) = cell a i j"
  by (simp add: ravel_def rows_nth)

lemma offset_ignores_t:
  "calculate_temperature_offset (s\<lparr>t := x\<rparr>) = calculate_temperature_offset s"
  by (simp add: calculate_temperature_offset_def Let_def)

lemma offset_cell:
  "cell (calculate_temperature_offset s) i j =
     (if simulation_mode s = ''baja_diferencia''
      then (if foot s = ''izquierdo'' then - 0.3 else 0.3)
      else (if foot s = ''izquierdo'' then - 1.5 else 0))"
  by (simp add: calculate_temperature_offset_def Let_def fill_def zeros_def)

lemma get_frame_frame:
  "snd (get_frame normal s) =
     \<lparr>nrows = nrows (base s), ncols = ncols (base s),
      cell = (\<lambda>i j. cell (base s) i j + 0.3 * sin (t s + 0.05) + normal i j
                 + cell (calculate_temperature_offset s) i j)\<rparr>"
  by (simp add: get_frame_def Let_def add_def map_cells_def offset_ignores_t)

text \<open>
  C2. A call of \<open>get_frame\<close> on a sensor made by the class adds \<open>0.05\<close> to \<open>t\<close> and
  changes nothing else; the frame has \<open>rows \<times> cols\<close> cells and each cell is the base, plus
  \<open>0.3 * sin t\<close> for the new \<open>t\<close>, plus the noise of the cell, plus the offset of the
  current configuration. The noise is an argument of the model: its distribution is not
  part of the statement.
\<close>

theorem get_frame_spec:
  "made fs s \<Longrightarrow>
   fst (get_frame normal s) = s\<lparr>t := t s + 0.05\<rparr> \<and>
   t (fst (get_frame normal s)) = t s + 0.05 \<and>
   nrows (snd (get_frame normal s)) = rows s \<and>
   ncols (snd (get_frame normal s)) = cols s \<and>
   length (ravel (snd (get_frame normal s))) = rows s * cols s \<and>
   (\<forall>i j. cell (snd (get_frame normal s)) i j =
      cell (base s) i j + 0.3 * sin (t (fst (get_frame normal s))) + normal i j
        + cell (calculate_temperature_offset s) i j)"
  using made_shape_ok [of fs s]
  by (simp add: get_frame_state get_frame_frame ravel_length shape_ok_def)

lemma demo_base: "base (demo None None) = full 32 24 33"
  by (simp add: demo_def set_config_def set_config_mode_def set_config_foot_def Let_def
      SimulatedSensor_def image_map_def load_image_def no_files_def)

lemma demo_t: "t (demo None None) = 0"
  by (simp add: demo_def set_config_def set_config_mode_def set_config_foot_def Let_def
      SimulatedSensor_def image_map_def load_image_fields)

theorem get_frame_spec_witness:
  "made no_files (demo None None) \<and>
   t (fst (get_frame sample (demo None None))) = 0.05 \<and>
   nrows (snd (get_frame sample (demo None None))) = 32 \<and>
   ncols (snd (get_frame sample (demo None None))) = 24 \<and>
   length (ravel (snd (get_frame sample (demo None None)))) = 768 \<and>
   cell (snd (get_frame sample (demo None None))) 3 3 = 33 + 0.3 * sin 0.05 + 0.1 + (- 0.3) \<and>
   cell (snd (get_frame sample (demo None None))) 3 4 = 33 + 0.3 * sin 0.05 + (- 0.2) + (- 0.3)"
  using get_frame_spec [OF demo_made, of sample None None]
  by (simp add: demo_cfg demo_size demo_base demo_t demo_made full_def sample_def offset_cell)

section \<open>Properties of the messages\<close>


lemma build_payload_eq:
  "build_payload normal now ss =
     (ss\<lparr>sensor := fst (get_frame normal (sensor ss))\<rparr>,
      \<lparr>payload_simulation_mode = current_simulation_mode ss,
       payload_foot = current_foot ss,
       payload_timestamp = now,
       payload_rows = rows (sensor ss),
       payload_cols = cols (sensor ss),
       payload_data = ravel (snd (get_frame normal (sensor ss)))\<rparr>)"
  by (simp add: build_payload_def split_beta get_frame_state)

lemma build_payload_fields:
  assumes "in_sync ss"
  shows "payload_simulation_mode (snd (build_payload normal now ss)) = current_simulation_mode ss"
    and "payload_simulation_mode (snd (build_payload normal now ss)) = simulation_mode (sensor ss)"
    and "payload_foot (snd (build_payload normal now ss)) = current_foot ss"
    and "payload_foot (snd (build_payload normal now ss)) = foot (sensor ss)"
    and "payload_timestamp (snd (build_payload normal now ss)) = now"
    and "payload_rows (snd (build_payload normal now ss)) = rows (sensor ss)"
    and "payload_cols (snd (build_payload normal now ss)) = cols (sensor ss)"
    and "length (payload_data (snd (build_payload normal now ss)))
           = rows (sensor ss) * cols (sensor ss)"
    and "\<forall>i<rows (sensor ss). \<forall>j<cols (sensor ss).
           payload_data (snd (build_payload normal now ss)) ! (i * cols (sensor ss) + j)
             = cell (snd (get_frame normal (sensor ss))) i j"
proof -
  from assms have sh: "nrows (base (sensor ss)) = rows (sensor ss)"
    "ncols (base (sensor ss)) = cols (sensor ss)"
    by (simp_all add: in_sync_def shape_ok_def)
  have fr: "nrows (snd (get_frame normal (sensor ss))) = rows (sensor ss)"
    "ncols (snd (get_frame normal (sensor ss))) = cols (sensor ss)"
    by (simp_all add: get_frame_frame sh)
  show "\<forall>i<rows (sensor ss). \<forall>j<cols (sensor ss).
           payload_data (snd (build_payload normal now ss)) ! (i * cols (sensor ss) + j)
             = cell (snd (get_frame normal (sensor ss))) i j"
    using ravel_nth [of _ "snd (get_frame normal (sensor ss))"]
    by (simp add: fr build_payload_eq)
  show "length (payload_data (snd (build_payload normal now ss)))
           = rows (sensor ss) * cols (sensor ss)"
    by (simp add: build_payload_eq ravel_length fr)
qed (use assms in \<open>simp_all add: build_payload_eq in_sync_def\<close>)

subsection \<open>The session stays in sync\<close>

lemma set_config_mode_valid:
  "v \<in> set VALID_SIMULATION_MODES \<Longrightarrow> simulation_mode (fst (set_config fs (Some v) None s)) = v"
  by (auto simp: set_config_def set_config_mode_def set_config_foot_def VALID_SIMULATION_MODES_def)

lemma set_config_mode_only:
  "foot (fst (set_config fs m None s)) = foot s"
  "image_path (fst (set_config fs m None s)) = image_path s"
  "loads (fst (set_config fs m None s)) = loads s"
  by (simp_all add: set_config_def set_config_foot_def set_config_mode_fields)

lemma set_config_foot_valid:
  "v \<in> set VALID_FEET \<Longrightarrow> foot (fst (set_config fs None (Some v) s)) = v"
  by (auto simp: set_config_def set_config_mode_def set_config_foot_def VALID_FEET_def Let_def
      load_image_fields)

lemma set_config_foot_only:
  "simulation_mode (fst (set_config fs None f s)) = simulation_mode s"
  by (simp add: set_config_def set_config_mode_def set_config_foot_def Let_def load_image_fields
      split: option.split)

lemma path_ok_update:
  "path_ok (s\<lparr>simulation_mode := v\<rparr>) = path_ok s"
  "path_ok (s\<lparr>t := x\<rparr>) = path_ok s"
  by (simp_all add: path_ok_def)

lemma set_config_path_ok: "path_ok s \<Longrightarrow> path_ok (fst (set_config fs m f s))"
proof -
  assume a: "path_ok s"
  have m: "path_ok (fst (set_config_mode m s))"
    using a by (simp add: set_config_mode_def path_ok_update split: option.split)
  have "path_ok (fst sc) \<Longrightarrow> path_ok (fst (set_config_foot fs f sc))" for sc
    by (auto simp: set_config_foot_def Let_def path_ok_def load_image_fields VALID_FEET_def
        image_map_def split: option.split)
  with m show ?thesis by (simp add: set_config_def)
qed

lemma in_sync_mode:
  "in_sync ss \<Longrightarrow> v \<in> set VALID_SIMULATION_MODES \<Longrightarrow>
   in_sync (ss\<lparr>current_simulation_mode := v,
              sensor := fst (set_config fs (Some v) None (sensor ss))\<rparr>)"
  by (simp add: in_sync_def set_config_mode_valid set_config_mode_only set_config_shape
      set_config_path_ok)

lemma in_sync_foot:
  "in_sync ss \<Longrightarrow> v \<in> set VALID_FEET \<Longrightarrow>
   in_sync (ss\<lparr>current_foot := v,
              sensor := fst (set_config fs None (Some v) (sensor ss))\<rparr>)"
  by (simp add: in_sync_def set_config_foot_valid set_config_foot_only set_config_shape
      set_config_path_ok)

lemma json_in_str: "json_in x names \<Longrightarrow> x = JStr (str_of x) \<and> str_of x \<in> set names"
  by (cases x) (simp_all add: json_in_def str_of_def)

lemma in_sync_mode_field:
  "in_sync ss \<Longrightarrow>
   in_sync (case kv ''simulation_mode'' of
              None \<Rightarrow> ss
            | Some sim_mode \<Rightarrow>
                if json_in sim_mode VALID_SIMULATION_MODES then
                  ss\<lparr>current_simulation_mode := str_of sim_mode,
                     sensor := fst (set_config fs (Some (str_of sim_mode)) None (sensor ss))\<rparr>
                else ss)"
  by (auto simp: in_sync_mode dest: json_in_str split: option.split)

lemma in_sync_foot_field:
  "in_sync ss \<Longrightarrow>
   in_sync (case kv ''foot'' of
              None \<Rightarrow> ss
            | Some ft \<Rightarrow>
                if json_in ft VALID_FEET then
                  ss\<lparr>current_foot := str_of ft,
                     sensor := fst (set_config fs None (Some (str_of ft)) (sensor ss))\<rparr>
                else ss)"
  by (auto simp: in_sync_foot dest: json_in_str split: option.split)

lemma handshake_config_in_sync: "in_sync ss \<Longrightarrow> in_sync (handshake_config fs kv ss)"
  unfolding handshake_config_def Let_def
  by (intro in_sync_foot_field in_sync_mode_field)

text \<open>
  When the body of the receiver comes to its end it has done what the body of the
  handshake does; when a \<open>print\<close> raises, it has done that for a part of the message.
\<close>

lemma receive_config_done:
  "receive_config fs kv ss = Inr (ss1, c) \<Longrightarrow> ss1 = handshake_config fs kv ss"
  by (auto simp: receive_config_def handshake_config_def Let_def
      split: option.splits if_splits)

lemma receive_config_raised:
  "receive_config fs kv ss = Inl (e, ss1) \<Longrightarrow>
   e = UnicodeEncodeError \<and>
   (ss1 = ss \<or> ss1 = handshake_config fs (kv(''foot'' := None)) ss)"
  by (auto simp: receive_config_def handshake_config_def Let_def
      split: option.splits if_splits)

lemma receive_config_in_sync:
  "in_sync ss \<Longrightarrow> receive_config fs kv ss = Inr (ss1, c) \<Longrightarrow> in_sync ss1"
  "in_sync ss \<Longrightarrow> receive_config fs kv ss = Inl (e, ss1) \<Longrightarrow> in_sync ss1"
  by (auto dest!: receive_config_done receive_config_raised simp: handshake_config_in_sync)

lemma in_sync_running: "in_sync (ss\<lparr>running := b\<rparr>) = in_sync ss"
  by (simp add: in_sync_def)

lemma new_session_in_sync: "in_sync (new_session fs)"
  by (simp add: in_sync_def new_session_def set_config_shape SimulatedSensor_def load_image_shape
      set_config_def set_config_mode_def set_config_foot_def load_image_fields path_ok_def
      VALID_FEET_def image_map_def)

lemma handshake_in_sync: "in_sync ss \<Longrightarrow> in_sync (fst (handshake fs r ss))"
  by (auto simp: handshake_def handshake_config_in_sync in_sync_running
      split: recv_result.split decoded.split json.split)

lemma build_payload_in_sync: "in_sync ss \<Longrightarrow> in_sync (fst (build_payload normal now ss))"
  by (simp add: build_payload_eq in_sync_def get_frame_state shape_ok_update path_ok_update)

lemma receive_message_in_sync:
  "in_sync ss \<Longrightarrow> receive_message fs d ss = Inr ss1 \<Longrightarrow> in_sync ss1"
  "in_sync ss \<Longrightarrow> receive_message fs d ss = Inl (e, ss1) \<Longrightarrow> in_sync ss1"
  by (auto simp: receive_message_def dest: receive_config_in_sync
      split: decoded.splits json.splits sum.splits)

lemma step_in_sync: "in_sync (shared st) \<Longrightarrow> in_sync (shared (step fs e st))"
  by (cases e)
     (auto simp: sender_head_def receiver_head_def stop_def in_sync_running split_beta
        build_payload_in_sync dest: receive_message_in_sync
        split: sender_pc.split send_result.split recv_result.split sum.split)

lemma run_in_sync: "in_sync (shared st) \<Longrightarrow> in_sync (shared (run fs es st))"
  by (induction es arbitrary: st) (simp_all add: step_in_sync)

lemma streaming_in_sync:
  "in_sync (shared (run fs es (start_streaming (fst (handshake fs r (new_session fs))))))"
  by (intro run_in_sync) (simp add: start_streaming_def handshake_in_sync new_session_in_sync)


lemma new_session_fields:
  "current_simulation_mode (new_session fs) = ''baja_diferencia''"
  "current_foot (new_session fs) = ''izquierdo''"
  "simulation_mode (sensor (new_session fs)) = ''baja_diferencia''"
  "foot (sensor (new_session fs)) = ''izquierdo''"
  "rows (sensor (new_session fs)) = 32"
  "cols (sensor (new_session fs)) = 24"
  "image_path (sensor (new_session fs)) = ''pie_izquierdo.png''"
  "loads (sensor (new_session fs)) = [''pie_izquierdo.png'']"
  "t (sensor (new_session fs)) = 0"
  "running (new_session fs)"
  by (simp_all add: new_session_def SimulatedSensor_def set_config_def set_config_mode_def
      set_config_foot_def load_image_fields)

subsection \<open>What the sender writes\<close>

lemma tick_outbox:
  "running (shared st) \<Longrightarrow> enabled (SenderRuns normal t0 now) st \<Longrightarrow>
   outbox (step fs (SenderRuns normal t0 now) st)
     = snd (build_payload normal now (shared st)) # outbox st"
  by (simp add: sender_head_def split_beta)

lemma other_outbox:
  "(case e of SenderRuns normal t0 now \<Rightarrow> \<not> running (shared st) | _ \<Rightarrow> True) \<Longrightarrow>
   outbox (step fs e st) = outbox st"
  by (cases e)
     (auto simp: sender_head_def receiver_head_def stop_def
        split: sender_pc.split send_result.split recv_result.split sum.split)

lemma step_outbox_sized:
  assumes "in_sync (shared st)"
    and "\<forall>p\<in>set (outbox st). length (payload_data p) = payload_rows p * payload_cols p"
  shows "\<forall>p\<in>set (outbox (step fs e st)).
           length (payload_data p) = payload_rows p * payload_cols p"
proof (cases "case e of SenderRuns normal t0 now \<Rightarrow> \<not> running (shared st) | _ \<Rightarrow> True")
  case True
  then show ?thesis using assms(2) by (simp add: other_outbox)
next
  case False
  then obtain normal t0 now where e: "e = SenderRuns normal t0 now" and r: "running (shared st)"
    by (cases e) simp_all
  show ?thesis
  proof (cases "enabled e st")
    case True
    then show ?thesis
      using assms r build_payload_fields(6,7,8) [OF assms(1), of normal now]
      by (simp add: e tick_outbox del: step.simps enabled.simps)
  next
    case False
    then show ?thesis using assms(2) by (simp add: e)
  qed
qed

lemma run_outbox_sized:
  "in_sync (shared st) \<Longrightarrow>
   \<forall>p\<in>set (outbox st). length (payload_data p) = payload_rows p * payload_cols p \<Longrightarrow>
   \<forall>p\<in>set (outbox (run fs es st)).
      length (payload_data p) = payload_rows p * payload_cols p"
proof (induction es arbitrary: st)
  case Nil
  then show ?case by simp
next
  case (Cons e es)
  show ?case
    using Cons.IH [OF step_in_sync [OF Cons.prems(1)] step_outbox_sized [OF Cons.prems]]
    by simp
qed

text \<open>
  C9. In every state that the two loops reach after the handshake of a new session,
  whenever the sender runs a tick it hands to \<open>websocket.send\<close> one message, put in front
  of the earlier ones. That message carries the \<open>current_simulation_mode\<close> and
  \<open>current_foot\<close> of the session at that moment, which are the mode and foot of the sensor,
  the clock reading taken for the timestamp, the sensor's \<open>rows\<close> and \<open>cols\<close>, and as
  \<open>data\<close> the \<open>rows * cols\<close> cells of the frame of that tick in row-major order. Every
  message handed over before has as many values as its \<open>rows\<close> times its \<open>cols\<close>, and no
  other step hands over a message.
\<close>

theorem frame_message:
  assumes "st = run fs es (start_streaming (fst (handshake fs r (new_session fs))))"
    and "running (shared st)"
    and "enabled (SenderRuns normal t0 now) st"
  shows "outbox (step fs (SenderRuns normal t0 now) st)
      = snd (build_payload normal now (shared st)) # outbox st \<and>
    payload_simulation_mode (hd (outbox (step fs (SenderRuns normal t0 now) st)))
      = current_simulation_mode (shared st) \<and>
    payload_simulation_mode (hd (outbox (step fs (SenderRuns normal t0 now) st)))
      = simulation_mode (sensor (shared st)) \<and>
    payload_foot (hd (outbox (step fs (SenderRuns normal t0 now) st)))
      = current_foot (shared st) \<and>
    payload_foot (hd (outbox (step fs (SenderRuns normal t0 now) st)))
      = foot (sensor (shared st)) \<and>
    payload_timestamp (hd (outbox (step fs (SenderRuns normal t0 now) st))) = now \<and>
    payload_rows (hd (outbox (step fs (SenderRuns normal t0 now) st)))
      = rows (sensor (shared st)) \<and>
    payload_cols (hd (outbox (step fs (SenderRuns normal t0 now) st)))
      = cols (sensor (shared st)) \<and>
    length (payload_data (hd (outbox (step fs (SenderRuns normal t0 now) st))))
      = rows (sensor (shared st)) * cols (sensor (shared st)) \<and>
    (\<forall>i<rows (sensor (shared st)). \<forall>j<cols (sensor (shared st)).
       payload_data (hd (outbox (step fs (SenderRuns normal t0 now) st)))
           ! (i * cols (sensor (shared st)) + j)
         = cell (snd (get_frame normal (sensor (shared st)))) i j) \<and>
    (\<forall>p\<in>set (outbox st). length (payload_data p) = payload_rows p * payload_cols p) \<and>
    (\<forall>e. (case e of SenderRuns normal t0 now \<Rightarrow> \<not> running (shared st) | _ \<Rightarrow> True) \<longrightarrow>
       outbox (step fs e st) = outbox st)"
proof -
  have sync: "in_sync (shared st)"
    unfolding assms(1) by (rule streaming_in_sync)
  note out = tick_outbox [OF assms(2,3), of fs]
  have sized: "\<forall>p\<in>set (outbox st). length (payload_data p) = payload_rows p * payload_cols p"
    unfolding assms(1)
    by (rule run_outbox_sized)
       (simp_all add: start_streaming_def handshake_in_sync new_session_in_sync)
  have others: "\<forall>e. (case e of SenderRuns normal t0 now \<Rightarrow> \<not> running (shared st) | _ \<Rightarrow> True) \<longrightarrow>
       outbox (step fs e st) = outbox st"
    using other_outbox [where st = st and fs = fs] by blast
  show ?thesis
    unfolding out list.sel
    using build_payload_fields [OF sync, of normal now] sized others
    by (simp del: step.simps)
qed
lemma configured_shared:
  "shared configured =
     (new_session no_files)\<lparr>current_foot := ''derecho'',
        sensor := fst (set_config no_files None (Some ''derecho'')
                    (sensor (new_session no_files)))\<rparr>"
  by (simp add: configured_def start_streaming_def handshake_def receiver_head_def
      receive_message_def receive_config_def msg_right_foot_def json_in_def str_of_def
      VALID_FEET_def new_session_fields)

lemma configured_fields:
  "running (shared configured)"
  "sender configured = SenderHead"
  "receiver configured = ReceiverWaiting"
  "outbox configured = []"
  "current_foot (shared configured) = ''derecho''"
  "current_simulation_mode (shared configured) = ''baja_diferencia''"
  "rows (sensor (shared configured)) = 32"
  "cols (sensor (shared configured)) = 24"
proof -
  show "running (shared configured)" "current_foot (shared configured) = ''derecho''"
    "current_simulation_mode (shared configured) = ''baja_diferencia''"
    by (simp_all add: configured_shared new_session_fields)
  show "rows (sensor (shared configured)) = 32" "cols (sensor (shared configured)) = 24"
    by (simp_all add: configured_shared new_session_fields set_config_def set_config_mode_def
        set_config_foot_def Let_def load_image_fields)
  show "sender configured = SenderHead" "receiver configured = ReceiverWaiting"
    "outbox configured = []"
    by (simp_all add: configured_def start_streaming_def handshake_def receiver_head_def
      receive_message_def receive_config_def msg_right_foot_def json_in_def str_of_def
      VALID_FEET_def new_session_fields)
qed

theorem frame_message_witness:
  "running (shared configured) \<and>
   enabled (SenderRuns sample 10 10.5) configured \<and>
   outbox (step no_files (SenderRuns sample 10 10.5) configured)
     = [snd (build_payload sample 10.5 (shared configured))] \<and>
   payload_simulation_mode (hd (outbox (step no_files (SenderRuns sample 10 10.5) configured)))
     = ''baja_diferencia'' \<and>
   payload_foot (hd (outbox (step no_files (SenderRuns sample 10 10.5) configured)))
     = ''derecho'' \<and>
   payload_timestamp (hd (outbox (step no_files (SenderRuns sample 10 10.5) configured)))
     = 10.5 \<and>
   payload_rows (hd (outbox (step no_files (SenderRuns sample 10 10.5) configured))) = 32 \<and>
   payload_cols (hd (outbox (step no_files (SenderRuns sample 10 10.5) configured))) = 24 \<and>
   length (payload_data (hd (outbox (step no_files (SenderRuns sample 10 10.5) configured))))
     = 768 \<and>
   payload_data (hd (outbox (step no_files (SenderRuns sample 10 10.5) configured))) ! 76
     = cell (snd (get_frame sample (sensor (shared configured)))) 3 4 \<and>
   outbox (step no_files (RecvReturns TimeoutError) configured) = outbox configured"
proof -
  have en: "enabled (SenderRuns sample 10 10.5) configured"
    by (simp add: configured_fields)
  note h = frame_message [OF configured_def configured_fields(1) en]
  from h have "\<forall>i<rows (sensor (shared configured)). \<forall>j<cols (sensor (shared configured)).
      payload_data (hd (outbox (step no_files (SenderRuns sample 10 10.5) configured)))
          ! (i * cols (sensor (shared configured)) + j)
        = cell (snd (get_frame sample (sensor (shared configured)))) i j"
    by blast
  then have "\<forall>i<32. \<forall>j<24.
      payload_data (hd (outbox (step no_files (SenderRuns sample 10 10.5) configured)))
          ! (i * 24 + j)
        = cell (snd (get_frame sample (sensor (shared configured)))) i j"
    by (simp only: configured_fields)
  from this [rule_format, of 3 4]
  have nth: "payload_data (hd (outbox (step no_files (SenderRuns sample 10 10.5) configured))) ! 76
     = cell (snd (get_frame sample (sensor (shared configured)))) 3 4"
    by simp
  from h have others: "\<forall>e. (case e of SenderRuns normal t0 now \<Rightarrow> \<not> running (shared configured)
        | _ \<Rightarrow> True) \<longrightarrow>
       outbox (step no_files e configured) = outbox configured"
    by blast
  from others [rule_format, of "RecvReturns TimeoutError"]
  have other: "outbox (step no_files (RecvReturns TimeoutError) configured) = outbox configured"
    by simp
  from h have flds:
    "outbox (step no_files (SenderRuns sample 10 10.5) configured)
       = snd (build_payload sample 10.5 (shared configured)) # outbox configured"
    "payload_simulation_mode (hd (outbox (step no_files (SenderRuns sample 10 10.5) configured)))
       = current_simulation_mode (shared configured)"
    "payload_foot (hd (outbox (step no_files (SenderRuns sample 10 10.5) configured)))
       = current_foot (shared configured)"
    "payload_timestamp (hd (outbox (step no_files (SenderRuns sample 10 10.5) configured)))
       = 10.5"
    "payload_rows (hd (outbox (step no_files (SenderRuns sample 10 10.5) configured)))
       = rows (sensor (shared configured))"
    "payload_cols (hd (outbox (step no_files (SenderRuns sample 10 10.5) configured)))
       = cols (sensor (shared configured))"
    "length (payload_data (hd (outbox (step no_files (SenderRuns sample 10 10.5) configured))))
       = rows (sensor (shared configured)) * cols (sensor (shared configured))"
    by blast+
  from en nth other flds show ?thesis
    by (simp add: configured_fields del: step.simps enabled.simps)
qed

subsection \<open>The cadence of the sender\<close>

lemma sleep_time_eq: "sleep_time e = max 0 (0.25 - e)"
  by (simp add: sleep_time_def INTERVAL_def FPS_def)

lemma send_ok_sleeps:
  "sender st = SenderSending t0 \<Longrightarrow>
   step fs (SendReturns SendOk t1) st = st\<lparr>sender := SenderSleeping (max 0 (0.25 - (t1 - t0)))\<rparr>"
  by (simp add: sleep_time_eq)

lemma step_sleeping:
  "sender (step fs e st) = SenderSleeping d \<Longrightarrow>
   sender st = SenderSleeping d \<or>
   (\<exists>t0 t1. sender st = SenderSending t0 \<and> e = SendReturns SendOk t1 \<and>
      d = max 0 (0.25 - (t1 - t0)))"
  by (cases e)
     (auto simp: sender_head_def receiver_head_def stop_def split_beta sleep_time_eq
        split: sender_pc.splits send_result.splits recv_result.splits sum.splits if_splits)

lemma run_sleeping:
  "(\<forall>d. sender st = SenderSleeping d \<longrightarrow> 0 \<le> d) \<Longrightarrow>
   sender (run fs es st) = SenderSleeping d \<Longrightarrow> 0 \<le> d"
proof (induction es arbitrary: st)
  case Nil
  then show ?case by simp
next
  case (Cons e es)
  have "\<forall>d. sender (step fs e st) = SenderSleeping d \<longrightarrow> 0 \<le> d"
    using Cons.prems(1) step_sleeping [of fs e st] by fastforce
  from Cons.IH [OF this] Cons.prems(2) show ?case by simp
qed

text \<open>
  C8. The period is a quarter of a second. When \<open>send\<close> returns after a tick that began
  at \<open>t0\<close>, and the clock then reads \<open>t1\<close>, the sender does nothing but go to sleep for
  \<open>max 0 (0.25 - (t1 - t0))\<close> seconds, which is not negative; the sender comes to sleep in
  no other way, and in no state that the loops reach does it sleep for a negative time.
\<close>

theorem sleep_time_clamped:
  "sender st = SenderSending t0 \<Longrightarrow>
   INTERVAL = 0.25 \<and>
   sleep_time (t1 - t0) = max 0 (0.25 - (t1 - t0)) \<and>
   step fs (SendReturns SendOk t1) st
     = st\<lparr>sender := SenderSleeping (max 0 (0.25 - (t1 - t0)))\<rparr> \<and>
   sender (step fs (SendReturns SendOk t1) st) = SenderSleeping (max 0 (0.25 - (t1 - t0))) \<and>
   0 \<le> max 0 (0.25 - (t1 - t0)) \<and>
   (sender (step fs e st) = SenderSleeping d \<longrightarrow>
      (\<exists>t2. e = SendReturns SendOk t2 \<and> d = max 0 (0.25 - (t2 - t0)))) \<and>
   (sender (run fs es (start_streaming ss)) = SenderSleeping d \<longrightarrow> 0 \<le> d)"
proof -
  assume a: "sender st = SenderSending t0"
  have r: "sender (run fs es (start_streaming ss)) = SenderSleeping d \<longrightarrow> 0 \<le> d"
    using run_sleeping [of "start_streaming ss" fs es d] by (simp add: start_streaming_def)
  have s: "sender (step fs e st) = SenderSleeping d \<longrightarrow>
      (\<exists>t2. e = SendReturns SendOk t2 \<and> d = max 0 (0.25 - (t2 - t0)))"
    using step_sleeping [of fs e st d] a by auto
  show ?thesis
    using r s send_ok_sleeps [OF a, of fs t1]
    by (simp add: sleep_time_eq INTERVAL_def FPS_def del: step.simps)
qed

lemma both_running_fields:
  "running (shared both_running)"
  "sender both_running = SenderSending 10"
  "receiver both_running = ReceiverWaiting"
  "current_foot (shared both_running) = ''izquierdo''"
  "foot (sensor (shared both_running)) = ''izquierdo''"
  "current_simulation_mode (shared both_running) = ''baja_diferencia''"
  by (simp_all add: both_running_def start_streaming_def sender_head_def receiver_head_def
      split_beta build_payload_eq new_session_fields get_frame_state)

theorem sleep_time_clamped_witness:
  "sender both_running = SenderSending 10 \<and>
   INTERVAL = 0.25 \<and>
   sender (step no_files (SendReturns SendOk 10.1) both_running) = SenderSleeping 0.15 \<and>
   sender (step no_files (SendReturns SendOk 10.4) both_running) = SenderSleeping 0 \<and>
   sender (run no_files [SenderRuns sample 10 10, SendReturns SendOk 10.1]
             (start_streaming (new_session no_files))) = SenderSleeping 0.15 \<and>
   (0 :: real) \<le> 0.15"
proof -
  note a = sleep_time_clamped [OF both_running_fields(2), of "10.1" no_files
      "SendReturns SendOk 10.1" "0.15" "[SenderRuns sample 10 10, SendReturns SendOk 10.1]"
      "new_session no_files"]
  note b = sleep_time_clamped [OF both_running_fields(2), of "10.4" no_files
      "SendReturns SendOk 10.4" 0 "[]" "new_session no_files"]
  from a have a': "INTERVAL = 0.25"
    "sender (step no_files (SendReturns SendOk 10.1) both_running)
       = SenderSleeping (max 0 (0.25 - (10.1 - 10)))"
    by blast+
  from b have b': "sender (step no_files (SendReturns SendOk 10.4) both_running)
       = SenderSleeping (max 0 (0.25 - (10.4 - 10)))"
    by blast
  have r: "sender (run no_files [SenderRuns sample 10 10, SendReturns SendOk 10.1]
             (start_streaming (new_session no_files))) = SenderSleeping 0.15"
    by (simp add: start_streaming_def sender_head_def split_beta new_session_fields
        sleep_time_eq)
  have n: "max 0 (0.25 - (10.1 - 10)) = (0.15 :: real)" "max 0 (0.25 - (10.4 - 10)) = (0 :: real)"
    by simp_all
  from a' b' r show ?thesis
    unfolding n by (simp add: both_running_fields del: step.simps run.simps)
qed

subsection \<open>Values that are not recognised\<close>

lemma set_config_none: "set_config fs None None s = (s, False)"
  by (simp add: set_config_def set_config_mode_def set_config_foot_def)

lemma set_config_invalid_mode:
  "mv \<notin> set VALID_SIMULATION_MODES \<Longrightarrow> set_config fs (Some mv) f s = set_config fs None f s"
  by (simp add: set_config_def set_config_mode_def VALID_SIMULATION_MODES_def)

lemma set_config_invalid_foot:
  "fv \<notin> set VALID_FEET \<Longrightarrow> set_config fs m (Some fv) s = set_config fs m None s"
  by (simp add: set_config_def set_config_foot_def VALID_FEET_def)

lemma set_config_invalid_both:
  "mv \<notin> set VALID_SIMULATION_MODES \<Longrightarrow> fv \<notin> set VALID_FEET \<Longrightarrow>
   set_config fs (Some mv) (Some fv) s = (s, False)"
  by (simp add: set_config_invalid_mode set_config_invalid_foot set_config_none)

text \<open>
  In the receiver a value that is not valid and can be printed is passed over, as if the
  field were absent.
\<close>

lemma receive_config_invalid_mode:
  "kv ''simulation_mode'' = Some x \<Longrightarrow> \<not> json_in x VALID_SIMULATION_MODES \<Longrightarrow> printable x \<Longrightarrow>
   receive_config fs kv ss = receive_config fs (kv(''simulation_mode'' := None)) ss"
  by (simp add: receive_config_def)

lemma receive_config_invalid_foot:
  "kv ''foot'' = Some y \<Longrightarrow> \<not> json_in y VALID_FEET \<Longrightarrow> printable y \<Longrightarrow>
   receive_config fs kv ss = receive_config fs (kv(''foot'' := None)) ss"
  by (simp add: receive_config_def split: sum.split prod.split)

lemma receive_config_absent:
  "kv ''simulation_mode'' = None \<Longrightarrow> kv ''foot'' = None \<Longrightarrow>
   receive_config fs kv ss = Inr (ss, False)"
  by (simp add: receive_config_def)

text \<open>A value that is not valid and cannot be printed ends the body of the receiver.\<close>

lemma receive_config_unprintable_mode:
  "kv ''simulation_mode'' = Some x \<Longrightarrow> \<not> json_in x VALID_SIMULATION_MODES \<Longrightarrow>
   \<not> printable x \<Longrightarrow> receive_config fs kv ss = Inl (UnicodeEncodeError, ss)"
  by (simp add: receive_config_def)

lemma lone_surrogate_unprintable:
  "\<not> printable (JStr lone_surrogate)" "\<not> json_in (JStr lone_surrogate) VALID_SIMULATION_MODES"
  by (simp_all add: printable_def lone_surrogate_def json_in_def VALID_SIMULATION_MODES_def)

text \<open>
  C5. \<open>set_config\<close> treats a value that is not recognised as an argument left out, as the
  lemmas above say, and so does the receiver when the value can be printed. But for the
  message \<open>{"simulation_mode": "\ud800", "foot": "derecho"}\<close> the \<open>print\<close> of the rejected
  mode raises \<open>UnicodeEncodeError\<close>: the valid foot of the same message is not applied, and
  \<open>except Exception\<close> clears \<open>running\<close> and ends the receiver.
\<close>

theorem receiver_unprintable_mode:
  "msg_surrogate_mode ''simulation_mode'' = Some (JStr lone_surrogate) \<and>
   \<not> json_in (JStr lone_surrogate) VALID_SIMULATION_MODES \<and>
   msg_surrogate_mode ''foot'' = Some (JStr ''derecho'') \<and>
   json_in (JStr ''derecho'') VALID_FEET \<and>
   running (shared both_running) \<and>
   current_foot (shared both_running) = ''izquierdo'' \<and>
   foot (sensor (shared both_running)) = ''izquierdo'' \<and>
   receive_config no_files msg_surrogate_mode (shared both_running)
     = Inl (UnicodeEncodeError, shared both_running) \<and>
   shared (step no_files (RecvReturns (Message (Loaded (JObj msg_surrogate_mode)))) both_running)
     = (shared both_running)\<lparr>running := False\<rparr> \<and>
   receiver (step no_files (RecvReturns (Message (Loaded (JObj msg_surrogate_mode))))
     both_running) = ReceiverDone"
proof -
  have m: "msg_surrogate_mode ''simulation_mode'' = Some (JStr lone_surrogate)"
    "msg_surrogate_mode ''foot'' = Some (JStr ''derecho'')"
    by (simp_all add: msg_surrogate_mode_def)
  have r: "receive_config no_files msg_surrogate_mode (shared both_running)
      = Inl (UnicodeEncodeError, shared both_running)"
    using m(1) lone_surrogate_unprintable
    by (simp add: receive_config_unprintable_mode [where kv = msg_surrogate_mode])
  show ?thesis
    by (simp add: m r lone_surrogate_unprintable both_running_fields receive_message_def
        stop_def json_in_def VALID_FEET_def VALID_SIMULATION_MODES_def lone_surrogate_def)
qed

subsection \<open>The handshake\<close>

lemma handshake_not_dict:
  "\<not> is_dict x \<Longrightarrow> handshake fs (Message (Loaded x)) ss = (ss, Streaming)"
  by (cases x) (simp_all add: handshake_def is_dict_def)

lemma handshake_goes_on:
  "r = TimeoutError \<or> r = Message JSONDecodeError \<or> (\<exists>x. r = Message (Loaded x) \<and> \<not> is_dict x)
     \<Longrightarrow> handshake fs r ss = (ss, Streaming)"
  by (auto simp: handshake_not_dict) (simp_all add: handshake_def)

lemma handshake_dict:
  "handshake fs (Message (Loaded (JObj kv))) ss = (handshake_config fs kv ss, Streaming)"
  by (simp add: handshake_def)

lemma handshake_config_sensor:
  "sensor (handshake_config fs kv ss) =
     fst (set_config fs None (valid_field kv ''foot'' VALID_FEET)
       (fst (set_config fs (valid_field kv ''simulation_mode'' VALID_SIMULATION_MODES) None
          (sensor ss))))"
  by (simp add: handshake_config_def Let_def valid_field_def set_config_none split: option.split)

lemma handshake_config_vars:
  "current_simulation_mode (handshake_config fs kv ss) =
     (case valid_field kv ''simulation_mode'' VALID_SIMULATION_MODES of
        None \<Rightarrow> current_simulation_mode ss | Some v \<Rightarrow> v)"
  "current_foot (handshake_config fs kv ss) =
     (case valid_field kv ''foot'' VALID_FEET of None \<Rightarrow> current_foot ss | Some v \<Rightarrow> v)"
  "running (handshake_config fs kv ss) = running ss"
  by (simp_all add: handshake_config_def Let_def valid_field_def split: option.split)

text \<open>
  C6. After the timeout, a \<open>JSONDecodeError\<close> or a value that is not a dictionary the
  handshake goes on to streaming with the session as it was, and a dictionary has its valid
  fields applied, as the lemmas above say. But a payload on which \<open>json.loads\<close> raises
  another exception, such as the bytes \<open>b'\x80'\<close>, is not caught by
  \<open>except json.JSONDecodeError\<close>: the handler leaves through \<open>except Exception\<close> and
  \<open>finally\<close>, and the session ends without streaming.
\<close>

theorem handshake_other_exception:
  "handshake no_files (Message OtherException) (new_session no_files)
     = ((new_session no_files)\<lparr>running := False\<rparr>, Closed) \<and>
   snd (handshake no_files (Message OtherException) (new_session no_files)) \<noteq> Streaming \<and>
   \<not> running (fst (handshake no_files (Message OtherException) (new_session no_files))) \<and>
   handshake no_files (Message JSONDecodeError) (new_session no_files)
     = (new_session no_files, Streaming)"
  by (simp add: handshake_def)

section \<open>Properties of the two loops\<close>


lemma receive_message_running:
  "receive_message fs d ss = Inr ss1 \<Longrightarrow> running ss1 = running ss"
  by (auto simp: receive_message_def handshake_config_vars dest!: receive_config_done
      split: decoded.splits json.splits sum.splits)

lemma build_payload_running: "running (fst (build_payload normal now ss)) = running ss"
  by (simp add: build_payload_eq)

lemma timeout_repolls:
  "running (shared st) \<Longrightarrow> step fs (RecvReturns TimeoutError) st = st"
  by (simp add: receiver_head_def)

lemma timeout_keeps_running:
  "running (shared (step fs (RecvReturns TimeoutError) st)) = running (shared st)"
  by (simp add: receiver_head_def)

text \<open>
  A step clears \<open>running\<close> exactly when \<open>send\<close> or the wait for a message ends with an
  exception that is not the timeout, or the handling of a message raises.
\<close>

lemma step_running:
  "running (shared (step fs e st)) =
     (running (shared st) \<and>
      \<not> (enabled e st \<and>
         (fault e \<or> (\<exists>d. e = RecvReturns (Message d) \<and> isl (receive_message fs d (shared st))))))"
  by (cases e)
     (auto simp: sender_head_def receiver_head_def stop_def split_beta build_payload_running
        dest: receive_message_running
        split: sender_pc.split send_result.split recv_result.split sum.splits)

lemma step_rank:
  "\<not> running (shared st) \<Longrightarrow> enabled e st \<Longrightarrow> rank (step fs e st) < rank st"
  by (cases e)
     (auto simp: rank_def sender_head_def receiver_head_def stop_def
        dest: receive_message_running
        split: sender_pc.splits send_result.split recv_result.split sum.splits)

lemma finished_rank: "finished st = (rank st = 0)"
  by (cases "sender st"; cases "receiver st") (simp_all add: finished_def rank_def)

lemma finished_no_event: "finished st \<Longrightarrow> \<not> enabled e st"
  by (cases e) (simp_all add: finished_def)

lemma unfinished_event:
  "\<not> finished st \<Longrightarrow>
   enabled (SenderRuns normal t0 now) st \<or> enabled (SendReturns SendOk t1) st \<or>
   enabled ReceiverRuns st \<or> enabled (RecvReturns TimeoutError) st"
  by (cases "sender st"; cases "receiver st") (simp_all add: finished_def)

lemma rank_le: "rank st \<le> 3"
  by (cases "sender st"; cases "receiver st") (simp_all add: rank_def)

lemma run_running:
  "\<not> running (shared st) \<Longrightarrow> \<not> running (shared (run fs es st))"
  by (induction es arbitrary: st) (simp_all add: step_running del: step.simps)

lemma schedule_rank:
  "\<not> running (shared st) \<Longrightarrow> schedule fs es st \<Longrightarrow> rank (run fs es st) + length es \<le> rank st"
proof (induction es arbitrary: st)
  case Nil
  then show ?case by simp
next
  case (Cons e es)
  from Cons.prems have en: "enabled e st" and sch: "schedule fs es (step fs e st)" by simp_all
  from Cons.prems(1) have nr: "\<not> running (shared (step fs e st))" by (simp add: step_running)
  from Cons.IH [OF nr sch] step_rank [OF Cons.prems(1) en, of fs]
  show ?case by simp
qed

lemma stopped_loops_return:
  "\<not> running (shared st) \<Longrightarrow> schedule fs es st \<Longrightarrow>
   length es \<le> rank st \<and> (length es = rank st \<longrightarrow> finished (run fs es st))"
  using schedule_rank [of st fs es] by (auto simp: finished_rank)

text \<open>
  C7. A timeout of the receiver's wait changes nothing, and once \<open>running\<close> is cleared
  both loops return after at most three steps, as the lemmas above say. But \<open>running\<close> is
  also cleared with the connection open and no fault of the transport: when both loops are
  waiting and a message arrives on which \<open>json.loads\<close> raises an exception that is not a
  \<open>JSONDecodeError\<close>, \<open>except Exception\<close> clears \<open>running\<close>, the receiver returns and the
  sender follows.
\<close>

theorem message_stops_session:
  "running (shared both_running) \<and>
   enabled (RecvReturns (Message OtherException)) both_running \<and>
   \<not> fault (RecvReturns (Message OtherException)) \<and>
   shared (step no_files (RecvReturns (Message OtherException)) both_running)
     = (shared both_running)\<lparr>running := False\<rparr> \<and>
   \<not> running (shared (step no_files (RecvReturns (Message OtherException)) both_running)) \<and>
   receiver (step no_files (RecvReturns (Message OtherException)) both_running)
     = ReceiverDone \<and>
   finished (run no_files (RecvReturns (Message OtherException) # last_steps) both_running)"
  by (simp add: both_running_fields receive_message_def stop_def last_steps_def finished_def
      sender_head_def)

end
